theory Spec2Isabelle
  imports Main
begin

section \<open>The search index script of the ticktock documentation\<close>

text \<open>
  The file \<^verbatim>\<open>search-index.js\<close> is a three-statement script: it declares the global
  \<^verbatim>\<open>searchIndex\<close> as an empty object, stores one object literal under the key
  \<^verbatim>\<open>"ticktock"\<close> and calls \<^verbatim>\<open>initSearch\<close> on the result. The crate's README is
  attached to it as a related document. Both are embedded below as they stand in the
  source: the literal as a value tree, the script as a statement list that is run on an
  explicit state, the README as its list of lines.
\<close>

subsection \<open>Values\<close>

text \<open>
  The values the script builds: \<^verbatim>\<open>null\<close>, numbers (all of them integer literals),
  strings, arrays and objects. An object keeps its properties in the order of the literal.
\<close>

datatype json =
    JNull
  | JNum int
  | JStr string
  | JArr "json list"
  | JObj "(string \<times> json) list"

abbreviation newline :: char where
  "newline \<equiv> CHR 0x0A"

text \<open>\<^verbatim>\<open>o[k]\<close>: the property of an object; when a literal repeats a key the last one counts.
  Absent (\<^verbatim>\<open>undefined\<close>) is \<open>None\<close>.\<close>

fun get_prop :: "json \<Rightarrow> string \<Rightarrow> json option" where
  "get_prop (JObj kvs) k = map_of (rev kvs) k"
| "get_prop _ k = None"

text \<open>\<^verbatim>\<open>a[i]\<close>: the element of an array; past the end it is \<^verbatim>\<open>undefined\<close>.\<close>

fun elem :: "json \<Rightarrow> nat \<Rightarrow> json option" where
  "elem (JArr xs) i = (if i < length xs then Some (xs ! i) else None)"
| "elem _ i = None"

text \<open>\<^verbatim>\<open>o[k] = v\<close> on the property list: an existing key keeps its place, a new one goes last.\<close>

fun put_prop :: "string \<Rightarrow> json \<Rightarrow> (string \<times> json) list \<Rightarrow> (string \<times> json) list" where
  "put_prop k v [] = [(k, v)]"
| "put_prop k v ((k', v') # kvs) = (if k' = k then (k, v) # kvs else (k', v') # put_prop k v kvs)"

fun is_num :: "json \<Rightarrow> bool" where
  "is_num (JNum n) = True"
| "is_num _ = False"

fun is_str :: "json \<Rightarrow> bool" where
  "is_str (JStr s) = True"
| "is_str _ = False"

fun is_obj :: "json \<Rightarrow> bool" where
  "is_obj (JObj kvs) = True"
| "is_obj _ = False"

fun is_arr :: "json \<Rightarrow> bool" where
  "is_arr (JArr xs) = True"
| "is_arr _ = False"

fun str_of :: "json \<Rightarrow> string option" where
  "str_of (JStr s) = Some s"
| "str_of _ = None"

fun num_of :: "json \<Rightarrow> int option" where
  "num_of (JNum n) = Some n"
| "num_of _ = None"

fun elems :: "json \<Rightarrow> json list" where
  "elems (JArr xs) = xs"
| "elems _ = []"

text \<open>Every value nested inside a value, at any depth.\<close>

primrec subvalues :: "json \<Rightarrow> json list" where
  "subvalues JNull = []"
| "subvalues (JNum n) = []"
| "subvalues (JStr s) = []"
| "subvalues (JArr xs) = xs @ concat (map subvalues xs)"
| "subvalues (JObj kvs) = map snd kvs @ concat (map snd (map (map_prod id subvalues) kvs))"

subsection \<open>The literal assigned to \<^verbatim>\<open>searchIndex["ticktock"]\<close>\<close>

definition items_literal :: "json list" where
  "items_literal = [
    JArr [JNum 0, JStr ''clock'', JStr ''ticktock'',
      JStr ''Frame clock module'',
      JNull, JNull],
    JArr [JNum 3, JStr ''Clock'', JStr ''ticktock::clock'',
      JStr ''Clock structure.'',
      JNull, JNull],
    JArr [JNum 3, JStr ''ClockIter'', JStr '''',
      JStr ''A clock iterator'',
      JNull, JNull],
    JArr [JNum 3, JStr ''ClockIterRelative'', JStr '''',
      JStr ''Similar to `ClockIter`, but returns a relative time instead.'',
      JNull, JNull],
    JArr [JNum 11, JStr ''new'', JStr '''',
      JStr ''Creates a new clock.'',
      JNum 0, 
      JObj [(''inputs'', JArr [JObj [(''name'', JStr ''duration'')]]),
            (''output'', JObj [(''name'', JStr ''clock'')])]],
    JArr [JNum 11, JStr ''new_with_start_time'', JStr '''',
      JStr ''Creates a new clock with a specified start time'',
      JNum 0, 
      JObj [(''inputs'', JArr [JObj [(''name'', JStr ''duration'')], JObj [(''name'', JStr ''instant'')]]),
            (''output'', JObj [(''name'', JStr ''clock'')])]],
    JArr [JNum 11, JStr ''synced'', JStr '''',
      JStr (''Creates a new clock with a different tick length that is synced to'' @ [newline] @ ''the original clock''),
      JNum 0, 
      JObj [(''inputs'', JArr [JObj [(''name'', JStr ''clock'')], JObj [(''name'', JStr ''duration'')]]),
            (''output'', JObj [(''name'', JStr ''clock'')])]],
    JArr [JNum 11, JStr ''start'', JStr '''',
      JStr ''Get start time'',
      JNum 0, 
      JObj [(''inputs'', JArr [JObj [(''name'', JStr ''clock'')]]),
            (''output'', JObj [(''name'', JStr ''instant'')])]],
    JArr [JNum 11, JStr ''wait_until_tick'', JStr '''',
      JStr ''Waits for the next clock tick.'',
      JNum 0, JNull],
    JArr [JNum 11, JStr ''iter'', JStr '''',
      JStr ''Creates a clock iterator.'',
      JNum 0, 
      JObj [(''inputs'', JArr [JObj [(''name'', JStr ''clock'')]]),
            (''output'', JObj [(''name'', JStr ''clockiter'')])]],
    JArr [JNum 11, JStr ''rel_iter'', JStr '''',
      JStr ''Create a relative clock iterator.'',
      JNum 0, 
      JObj [(''inputs'', JArr [JObj [(''name'', JStr ''clock'')]]),
            (''output'', JObj [(''name'', JStr ''clockiterrelative'')])]],
    JArr [JNum 11, JStr ''next'', JStr '''',
      JStr '''',
      JNum 1, 
      JObj [(''inputs'', JArr [JObj [(''name'', JStr ''clockiter'')]]),
            (''output'', JObj [(''name'', JStr ''option'')])]],
    JArr [JNum 11, JStr ''next'', JStr '''',
      JStr '''',
      JNum 2, 
      JObj [(''inputs'', JArr [JObj [(''name'', JStr ''clockiterrelative'')]]),
            (''output'', JObj [(''name'', JStr ''option'')])]],
    JArr [JNum 0, JStr ''timer'', JStr ''ticktock'',
      JStr ''Non-selfupdating interval timers'',
      JNull, JNull],
    JArr [JNum 3, JStr ''Timer'', JStr ''ticktock::timer'',
      JStr ''Interval-timer'',
      JNull, JNull],
    JArr [JNum 11, JStr ''new'', JStr '''',
      JStr ''Creates a new timer.'',
      JNum 3, 
      JObj [(''inputs'', JArr [JObj [(''name'', JStr ''duration'')]]),
            (''output'', JObj [(''name'', JStr ''timer'')])]],
    JArr [JNum 11, JStr ''new_with_start_time'', JStr '''',
      JStr ''Creates a new timer with a specific start time'',
      JNum 3, 
      JObj [(''inputs'', JArr [JObj [(''name'', JStr ''duration'')], JObj [(''name'', JStr ''instant'')]]),
            (''output'', JObj [(''name'', JStr ''timer'')])]],
    JArr [JNum 11, JStr ''has_fired'', JStr '''',
      JStr (''Returns true if the timer has fired since the last time passed to'' @ [newline] @ ''`reset()`.''),
      JNum 3, 
      JObj [(''inputs'', JArr [JObj [(''name'', JStr ''timer'')], JObj [(''name'', JStr ''instant'')]]),
            (''output'', JObj [(''name'', JStr ''bool'')])]],
    JArr [JNum 11, JStr ''remaining'', JStr '''',
      JStr ''Remaining time until the timer will fire again.'',
      JNum 3, 
      JObj [(''inputs'', JArr [JObj [(''name'', JStr ''timer'')], JObj [(''name'', JStr ''instant'')]]),
            (''output'', JObj [(''name'', JStr ''duration'')])]],
    JArr [JNum 11, JStr ''reset'', JStr '''',
      JStr ''Notify the timer it has been executed.'',
      JNum 3, 
      JObj [(''inputs'', JArr [JObj [(''name'', JStr ''timer'')], JObj [(''name'', JStr ''instant'')]]),
            (''output'', JObj [(''name'', JStr ''u32'')])]],
    JArr [JNum 11, JStr ''handle'', JStr '''',
      JStr ''Combines `has_fired()` and `reset()`.'',
      JNum 3, 
      JObj [(''inputs'', JArr [JObj [(''name'', JStr ''timer'')], JObj [(''name'', JStr ''instant'')]]),
            (''output'', JObj [(''name'', JStr ''bool'')])]]]"

definition paths_literal :: "json list" where
  "paths_literal = [
    JArr [JNum 3, JStr ''Clock''],
    JArr [JNum 3, JStr ''ClockIter''],
    JArr [JNum 3, JStr ''ClockIterRelative''],
    JArr [JNum 3, JStr ''Timer'']]"

definition ticktock_literal :: json where
  "ticktock_literal = JObj [
    (''doc'', JStr ''Timing module for frame-based applications''),
    (''items'', JArr items_literal),
    (''paths'', JArr paths_literal)]"

subsection \<open>The script\<close>

datatype expr =
    Lit json
  | Var string

datatype stmt =
    VarDecl string expr
  | MemberAssign string string expr
  | Call string "expr list"

text \<open>
  \<open>VarDecl x e\<close> is \<^verbatim>\<open>var x = e;\<close>, \<open>MemberAssign x k e\<close> is \<^verbatim>\<open>x["k"] = e;\<close> and
  \<open>Call f es\<close> is the expression statement \<^verbatim>\<open>f(es);\<close>.
\<close>

definition script :: "stmt list" where
  "script = [
    VarDecl ''searchIndex'' (Lit (JObj [])),
    MemberAssign ''searchIndex'' ''ticktock'' (Lit ticktock_literal),
    Call ''initSearch'' [Var ''searchIndex'']]"

text \<open>
  Running it. The state is the global variables and the log of calls made to functions of
  the hosting page (\<^verbatim>\<open>initSearch\<close> is defined by the documentation browser, not by this
  file; \<open>host\<close> lists the functions the page provides). Reading an undeclared name is a
  \<^verbatim>\<open>ReferenceError\<close>, storing a property on \<^verbatim>\<open>null\<close> a \<^verbatim>\<open>TypeError\<close>; storing a
  property on a number, string or array is outside what this script does and is reported as
  \<open>Unsupported\<close>.
\<close>

datatype error =
    ReferenceError string
  | TypeError string
  | Unsupported

record state =
  vars :: "string \<Rightarrow> json option"
  calls :: "(string \<times> json list) list"

definition init_state :: state where
  "init_state = \<lparr>vars = (\<lambda>x. None), calls = []\<rparr>"

fun eval_expr :: "state \<Rightarrow> expr \<Rightarrow> error + json" where
  "eval_expr s (Lit v) = Inr v"
| "eval_expr s (Var x) = (case vars s x of None \<Rightarrow> Inl (ReferenceError x) | Some v \<Rightarrow> Inr v)"

fun eval_args :: "state \<Rightarrow> expr list \<Rightarrow> error + json list" where
  "eval_args s [] = Inr []"
| "eval_args s (e # es) =
    (case eval_expr s e of
       Inl err \<Rightarrow> Inl err
     | Inr v \<Rightarrow> (case eval_args s es of Inl err \<Rightarrow> Inl err | Inr vs \<Rightarrow> Inr (v # vs)))"

fun exec :: "string list \<Rightarrow> stmt \<Rightarrow> state \<Rightarrow> error + state" where
  "exec host (VarDecl x e) s =
    (case eval_expr s e of
       Inl err \<Rightarrow> Inl err
     | Inr v \<Rightarrow> Inr (s\<lparr>vars := (vars s)(x \<mapsto> v)\<rparr>))"
| "exec host (MemberAssign x k e) s =
    (case vars s x of
       None \<Rightarrow> Inl (ReferenceError x)
     | Some target \<Rightarrow>
        (case eval_expr s e of
           Inl err \<Rightarrow> Inl err
         | Inr v \<Rightarrow>
            (case target of
               JObj kvs \<Rightarrow> Inr (s\<lparr>vars := (vars s)(x \<mapsto> JObj (put_prop k v kvs))\<rparr>)
             | JNull \<Rightarrow> Inl (TypeError x)
             | _ \<Rightarrow> Inl Unsupported)))"
| "exec host (Call f es) s =
    (if f \<in> set host
     then (case eval_args s es of
             Inl err \<Rightarrow> Inl err
           | Inr vs \<Rightarrow> Inr (s\<lparr>calls := calls s @ [(f, vs)]\<rparr>))
     else Inl (ReferenceError f))"

fun run :: "string list \<Rightarrow> stmt list \<Rightarrow> state \<Rightarrow> error + state" where
  "run host [] s = Inr s"
| "run host (st # sts) s =
    (case exec host st s of Inl err \<Rightarrow> Inl err | Inr s' \<Rightarrow> run host sts s')"

text \<open>The page that loads the script provides \<^verbatim>\<open>initSearch\<close>.\<close>

definition page :: "string list" where
  "page = [''initSearch'']"

text \<open>\<^verbatim>\<open>searchIndex\<close> once the script has run, and the parts of it the search reads.\<close>

definition searchIndex :: "json option" where
  "searchIndex =
    (case run page script init_state of Inl err \<Rightarrow> None | Inr s \<Rightarrow> vars s ''searchIndex'')"

definition crate :: "string \<Rightarrow> json option" where
  "crate name = Option.bind searchIndex (\<lambda>idx. get_prop idx name)"

definition items :: "json list" where
  "items = (case Option.bind (crate ''ticktock'') (\<lambda>d. get_prop d ''items'') of
              Some v \<Rightarrow> elems v | None \<Rightarrow> [])"

definition paths :: "json list" where
  "paths = (case Option.bind (crate ''ticktock'') (\<lambda>d. get_prop d ''paths'') of
              Some v \<Rightarrow> elems v | None \<Rightarrow> [])"

subsection \<open>Item records\<close>

text \<open>
  An item record is an array; its components are read by position: kind code, name, path,
  description, parent index, type-signature metadata.
\<close>

definition item_kind :: "json \<Rightarrow> int option" where
  "item_kind r = Option.bind (elem r 0) num_of"

definition item_name :: "json \<Rightarrow> string option" where
  "item_name r = Option.bind (elem r 1) str_of"

definition item_path :: "json \<Rightarrow> string option" where
  "item_path r = Option.bind (elem r 2) str_of"

definition item_desc :: "json \<Rightarrow> string option" where
  "item_desc r = Option.bind (elem r 3) str_of"

definition item_parent :: "json \<Rightarrow> json option" where
  "item_parent r = elem r 4"

definition item_type :: "json \<Rightarrow> json option" where
  "item_type r = elem r 5"

text \<open>The shape of an item record: six components of the types the search expects.\<close>

definition is_item :: "json \<Rightarrow> bool" where
  "is_item r =
    (case r of
       JArr cs \<Rightarrow>
         length cs = 6 \<and> is_num (cs ! 0) \<and> is_str (cs ! 1) \<and> is_str (cs ! 2) \<and> is_str (cs ! 3)
         \<and> (cs ! 4 = JNull \<or> is_num (cs ! 4)) \<and> (cs ! 5 = JNull \<or> is_obj (cs ! 5))
     | _ \<Rightarrow> False)"

text \<open>Kind codes used by the index: 0 a module, 3 a struct, 11 a method.\<close>

definition is_struct :: "json \<Rightarrow> bool" where
  "is_struct r = (item_kind r = Some 3)"

definition is_method :: "json \<Rightarrow> bool" where
  "is_method r = (item_kind r = Some 11)"

text \<open>The entry of \<^verbatim>\<open>paths\<close> a record's parent index selects, and the name in it.\<close>

definition parent_entry :: "json \<Rightarrow> json option" where
  "parent_entry r =
    (case item_parent r of
       Some (JNum p) \<Rightarrow> (if 0 \<le> p \<and> nat p < length paths then Some (paths ! nat p) else None)
     | _ \<Rightarrow> None)"

definition path_name :: "json \<Rightarrow> string option" where
  "path_name e = Option.bind (elem e 1) str_of"

definition parent_struct :: "json \<Rightarrow> string option" where
  "parent_struct r = Option.bind (parent_entry r) path_name"

text \<open>The type-signature metadata: the names of the input types and of the output type.\<close>

definition type_name :: "json \<Rightarrow> string option" where
  "type_name t = Option.bind (get_prop t ''name'') str_of"

definition input_types :: "json \<Rightarrow> string option list" where
  "input_types r =
    (case Option.bind (item_type r) (\<lambda>t. get_prop t ''inputs'') of
       Some v \<Rightarrow> map type_name (elems v) | None \<Rightarrow> [])"

definition first_input :: "json \<Rightarrow> string option" where
  "first_input r = (case input_types r of [] \<Rightarrow> None | t # ts \<Rightarrow> t)"

definition output_type :: "json \<Rightarrow> string option" where
  "output_type r =
    Option.bind (Option.bind (item_type r) (\<lambda>t. get_prop t ''output'')) type_name"

text \<open>ASCII lower-casing, as the index writes type names.\<close>

definition lower_char :: "char \<Rightarrow> char" where
  "lower_char c =
    (case map_of (zip ''ABCDEFGHIJKLMNOPQRSTUVWXYZ'' ''abcdefghijklmnopqrstuvwxyz'') c of
       Some l \<Rightarrow> l
     | None \<Rightarrow> c)"

definition lowercase :: "string \<Rightarrow> string" where
  "lowercase s = map lower_char s"

text \<open>The number of line breaks in a description.\<close>

definition line_breaks :: "string \<Rightarrow> nat" where
  "line_breaks s = length (filter (\<lambda>c. c = newline) s)"

definition desc_breaks :: "json \<Rightarrow> nat option" where
  "desc_breaks r = map_option line_breaks (item_desc r)"

text \<open>The records of a given name.\<close>

definition named :: "string \<Rightarrow> json list" where
  "named n = filter (\<lambda>r. item_name r = Some n) items"

subsection \<open>The README\<close>

text \<open>The README attached to the script, line by line.\<close>

definition readme :: "string list" where
  "readme = [
    ''Frame-clock and timers'',
    ''======================'',
    '''',
    ''`ticktock` makes it very easy to access frame-timing iterators to achieve'',
    ''constant framerates:'',
    '''',
    ''```rust'',
    ''// run with a constant framerate of 30 fps'',
    ''for (tick, now) in Clock::framerate(30.0).iter() {'',
    ''  // ...'',
    ''}'',
    ''```'',
    '''',
    ''See the [documentation](https://docs.rs/ticktock) for details.'']"

text \<open>
  A fence line opens or closes a code block. \<open>code_sample\<close> is the first fenced block of a
  document: the language tag of its opening fence and the lines up to the closing fence.
\<close>

definition is_fence :: "string \<Rightarrow> bool" where
  "is_fence l = (take 3 l = [CHR 0x60, CHR 0x60, CHR 0x60])"

definition code_sample :: "string list \<Rightarrow> (string \<times> string list) option" where
  "code_sample doc =
    (case dropWhile (\<lambda>l. \<not> is_fence l) doc of
       [] \<Rightarrow> None
     | open_fence # rest \<Rightarrow> Some (drop 3 open_fence, takeWhile (\<lambda>l. \<not> is_fence l) rest))"

text \<open>
  The names a line of code calls: every identifier that is directly followed by an opening
  parenthesis.
\<close>

definition is_ident_char :: "char \<Rightarrow> bool" where
  "is_ident_char c =
    (let n = (of_char c :: nat) in
       (65 \<le> n \<and> n \<le> 90) \<or> (97 \<le> n \<and> n \<le> 122) \<or> (48 \<le> n \<and> n \<le> 57) \<or> n = 95)"

fun called_from :: "string \<Rightarrow> string \<Rightarrow> string list" where
  "called_from acc [] = []"
| "called_from acc (c # cs) =
    (if is_ident_char c then called_from (acc @ [c]) cs
     else if c = CHR ''('' \<and> acc \<noteq> [] then acc # called_from [] cs
     else called_from [] cs)"

definition called_names :: "string list \<Rightarrow> string list" where
  "called_names ls = concat (map (called_from []) ls)"

definition sample_lines :: "string list" where
  "sample_lines = (case code_sample readme of Some (lang, ls) \<Rightarrow> ls | None \<Rightarrow> [])"

subsection \<open>The source file and the shape of a signature\<close>

text \<open>The file as a whole: the statements of the script, then the attached README.\<close>

record source_file =
  statements :: "stmt list"
  related_doc :: "string list"

definition search_index_js :: source_file where
  "search_index_js = \<lparr>statements = script, related_doc = readme\<rparr>"

text \<open>What kind of statement a statement is, and the variable or function it names.\<close>

datatype form = Declaration | Assignment | Invocation

fun stmt_form :: "stmt \<Rightarrow> form \<times> string" where
  "stmt_form (VarDecl x e) = (Declaration, x)"
| "stmt_form (MemberAssign x k e) = (Assignment, x)"
| "stmt_form (Call f es) = (Invocation, f)"

text \<open>
  A type reference is an object with the single property \<^verbatim>\<open>name\<close>, a string. A signature
  is an object with exactly the properties \<^verbatim>\<open>inputs\<close>, an array of type references, and
  \<^verbatim>\<open>output\<close>, a type reference, in this order.
\<close>

definition is_type_ref :: "json \<Rightarrow> bool" where
  "is_type_ref v =
    (case v of
       JObj kvs \<Rightarrow> map fst kvs = [''name''] \<and> list_all is_str (map snd kvs)
     | _ \<Rightarrow> False)"

definition is_signature :: "json \<Rightarrow> bool" where
  "is_signature v =
    (case v of
       JObj kvs \<Rightarrow>
         map fst kvs = [''inputs'', ''output'']
         \<and> is_arr (snd (kvs ! 0)) \<and> list_all is_type_ref (elems (snd (kvs ! 0)))
         \<and> is_type_ref (snd (kvs ! 1))
     | _ \<Rightarrow> False)"

text \<open>The sixth component of a record: null, or a signature.\<close>

definition has_flat_type :: "json \<Rightarrow> bool" where
  "has_flat_type r =
    (case item_type r of
       None \<Rightarrow> False
     | Some JNull \<Rightarrow> True
     | Some t \<Rightarrow> is_signature t)"

section \<open>Properties\<close>

lemma run_script:
  "run page script init_state =
    Inr \<lparr>vars = (\<lambda>x. None)(''searchIndex'' \<mapsto> JObj [(''ticktock'', ticktock_literal)]),
         calls = [(''initSearch'', [JObj [(''ticktock'', ticktock_literal)]])]\<rparr>"
  by (simp add: script_def page_def init_state_def)

lemma searchIndex_value: "searchIndex = Some (JObj [(''ticktock'', ticktock_literal)])"
  by (simp add: searchIndex_def run_script)

lemma crate_ticktock: "crate ''ticktock'' = Some ticktock_literal"
  by (simp add: crate_def searchIndex_value)

lemma items_value: "items = items_literal"
  by (simp add: items_def crate_ticktock ticktock_literal_def)

lemma paths_value: "paths = paths_literal"
  by (simp add: paths_def crate_ticktock ticktock_literal_def)

lemmas item_defs =
  item_kind_def item_name_def item_path_def item_desc_def item_parent_def item_type_def

lemmas parent_defs =
  parent_struct_def parent_entry_def path_name_def paths_value paths_literal_def

lemma code_sample_readme:
  "code_sample readme = Some (''rust'', [
    ''// run with a constant framerate of 30 fps'',
    ''for (tick, now) in Clock::framerate(30.0).iter() {'',
    ''  // ...'',
    ''}''])"
  by (simp add: code_sample_def readme_def is_fence_def)

lemma called_names_sample: "called_names sample_lines = [''framerate'', ''iter'']"
  by (simp add: sample_lines_def code_sample_readme called_names_def is_ident_char_def)

subsection \<open>The shape of the index\<close>

text \<open>
  C1. The search index maps the crate name \<^verbatim>\<open>ticktock\<close> to a document object that holds a
  free-text description (\<^verbatim>\<open>doc\<close>, a string) and an ordered sequence of item records
  (\<^verbatim>\<open>items\<close>, an array). Every item record is an array of six components: the kind code
  is a number, the name, the path and the description are strings, the parent index is
  null or a number, and the type-signature metadata is null or an object.
\<close>

theorem search_index_shape:
  "(\<exists>d doc. searchIndex = Some (JObj [(''ticktock'', d)])
      \<and> get_prop d ''doc'' = Some (JStr doc)
      \<and> get_prop d ''items'' = Some (JArr items))
   \<and> list_all is_item items"
  by (simp add: searchIndex_value items_value ticktock_literal_def items_literal_def is_item_def)

subsection \<open>Doc summaries\<close>

text \<open>
  C2, as stated, fails: the claim is that no description of an item record contains a
  newline character. The record at position 6, the method \<^verbatim>\<open>synced\<close>, has a description
  that runs over two lines.
\<close>

theorem synced_description_has_newline:
  "item_name (items ! 6) = Some ''synced''
   \<and> item_desc (items ! 6) =
       Some (''Creates a new clock with a different tick length that is synced to''
             @ [newline] @ ''the original clock'')
   \<and> desc_breaks (items ! 6) = Some 1"
  by (simp add: items_value items_literal_def item_defs desc_breaks_def line_breaks_def)

text \<open>
  C2, amended. Every item record has a description string with no newline character,
  except the records of \<^verbatim>\<open>synced\<close> and \<^verbatim>\<open>has_fired\<close>, whose descriptions contain exactly
  one newline character each: the records whose description does not have zero line
  breaks are these two, in this order, with one line break each.
\<close>

theorem descriptions_line_breaks:
  "map (\<lambda>r. (item_name r, desc_breaks r)) (filter (\<lambda>r. desc_breaks r \<noteq> Some 0) items)
     = [(Some ''synced'', Some 1), (Some ''has_fired'', Some 1)]"
  by (simp add: items_value items_literal_def item_defs desc_breaks_def line_breaks_def)

text \<open>
  C6. The index documents fixed-tick waiting, relative elapsed-time iteration and
  fire-detection timers: there is exactly one record named \<^verbatim>\<open>wait_until_tick\<close>, a method
  of \<^verbatim>\<open>Clock\<close> described as "Waits for the next clock tick."; exactly one record named
  \<^verbatim>\<open>ClockIterRelative\<close>, a struct described as similar to \<^verbatim>\<open>ClockIter\<close> but returning a
  relative time instead; and exactly one record named \<^verbatim>\<open>has_fired\<close>, a method of
  \<^verbatim>\<open>Timer\<close> described as returning true if the timer has fired since the last time
  passed to \<^verbatim>\<open>reset()\<close>.
\<close>

theorem documented_summaries:
  "map (\<lambda>r. (item_kind r, parent_struct r, item_desc r)) (named ''wait_until_tick'')
     = [(Some 11, Some ''Clock'', Some ''Waits for the next clock tick.'')]
   \<and> map (\<lambda>r. (item_kind r, item_desc r)) (named ''ClockIterRelative'')
     = [(Some 3, Some ''Similar to `ClockIter`, but returns a relative time instead.'')]
   \<and> map (\<lambda>r. (item_kind r, parent_struct r, item_desc r)) (named ''has_fired'')
     = [(Some 11, Some ''Timer'',
         Some (''Returns true if the timer has fired since the last time passed to''
               @ [newline] @ ''`reset()`.''))]"
  by (simp add: named_def items_value items_literal_def item_defs parent_defs)

subsection \<open>The README and the index\<close>

text \<open>
  C5. The README contains a code sample, a fenced block tagged \<^verbatim>\<open>rust\<close>, that shows the
  call-site usage: under a comment about running at a constant framerate of 30 fps, a
  for-loop that binds the pair \<^verbatim>\<open>(tick, now)\<close> over \<^verbatim>\<open>Clock::framerate(30.0).iter()\<close>.
\<close>

theorem readme_code_sample:
  "code_sample readme = Some (''rust'', [
      ''// run with a constant framerate of 30 fps'',
      ''for (tick, now) in Clock::framerate(30.0).iter() {'',
      ''  // ...'',
      ''}''])
   \<and> sample_lines ! 1 = ''for (tick, now) in '' @ ''Clock::framerate(30.0).iter()'' @ '' {''"
  by (simp add: sample_lines_def code_sample_readme)

text \<open>
  C3, as stated, fails: the claim is that every method name the README's code sample
  invokes on \<^verbatim>\<open>Clock\<close> has an item record of that name. The sample calls
  \<^verbatim>\<open>framerate\<close>, and no item record of the index has that name.
\<close>

theorem framerate_not_indexed:
  "''framerate'' \<in> set (called_names sample_lines)
   \<and> Some ''framerate'' \<notin> set (map item_name items)"
  by (simp add: called_names_sample items_value items_literal_def item_defs)

text \<open>
  C3, amended. The README's code sample invokes two method names on \<^verbatim>\<open>Clock\<close>,
  \<^verbatim>\<open>framerate\<close> and \<^verbatim>\<open>iter\<close>. Of these only \<^verbatim>\<open>iter\<close> has an item record: exactly
  one, a method (kind code 11) whose parent index selects \<^verbatim>\<open>Clock\<close>. No item record is
  named \<^verbatim>\<open>framerate\<close>.
\<close>

theorem readme_calls_in_index:
  "called_names sample_lines = [''framerate'', ''iter'']
   \<and> map (\<lambda>r. (item_kind r, parent_struct r)) (named ''iter'') = [(Some 11, Some ''Clock'')]
   \<and> named ''framerate'' = []"
  by (simp add: called_names_sample named_def items_value items_literal_def item_defs
        parent_defs)

subsection \<open>Structs, paths and parents\<close>

text \<open>
  C4. The four types \<^verbatim>\<open>Clock\<close>, \<^verbatim>\<open>ClockIter\<close>, \<^verbatim>\<open>ClockIterRelative\<close> and \<^verbatim>\<open>Timer\<close>
  each appear as a struct item record (kind code 3) of the index, and the \<^verbatim>\<open>paths\<close> list
  consists of exactly these four entries.
\<close>

theorem structs_and_paths:
  "map item_name (filter is_struct items)
     = [Some ''Clock'', Some ''ClockIter'', Some ''ClockIterRelative'', Some ''Timer'']
   \<and> paths = [JArr [JNum 3, JStr ''Clock''], JArr [JNum 3, JStr ''ClockIter''],
              JArr [JNum 3, JStr ''ClockIterRelative''], JArr [JNum 3, JStr ''Timer'']]"
  by (simp add: is_struct_def items_value items_literal_def item_defs paths_value
        paths_literal_def)

text \<open>
  C9. In every item record the parent index is non-null exactly when the kind code is 11;
  every non-null parent index is a number between 0 and 3, a valid index into \<^verbatim>\<open>paths\<close>;
  and so the records that resolve to one of the four listed structs are exactly the
  methods.
\<close>

theorem parent_index_of_methods:
  "list_all (\<lambda>r. (item_parent r \<noteq> Some JNull) = is_method r) items
   \<and> list_all (\<lambda>r. item_parent r = Some JNull
                  \<or> (case item_parent r of
                        Some (JNum p) \<Rightarrow> 0 \<le> p \<and> p \<le> 3 \<and> nat p < length paths
                      | _ \<Rightarrow> False)) items
   \<and> list_all (\<lambda>r. is_method r =
                    (parent_struct r \<in> {Some ''Clock'', Some ''ClockIter'',
                                        Some ''ClockIterRelative'', Some ''Timer''})) items"
  by (simp add: is_method_def items_value items_literal_def item_defs parent_defs)

text \<open>
  C10. Every item record named \<^verbatim>\<open>new\<close> or \<^verbatim>\<open>new_with_start_time\<close> (there are two of
  each) lists \<^verbatim>\<open>duration\<close> as its first input type, and its output type is the lower-case
  name of the struct its parent index selects, \<^verbatim>\<open>clock\<close> or \<^verbatim>\<open>timer\<close>.
\<close>

theorem constructor_signatures:
  "list_all (\<lambda>r. first_input r = Some ''duration''
                 \<and> output_type r \<in> {Some ''clock'', Some ''timer''}
                 \<and> output_type r = map_option lowercase (parent_struct r))
      (named ''new'' @ named ''new_with_start_time'')
   \<and> length (named ''new'') = 2 \<and> length (named ''new_with_start_time'') = 2"
  by (simp add: named_def first_input_def input_types_def output_type_def type_name_def
        lowercase_def lower_char_def items_value items_literal_def item_defs parent_defs)

subsection \<open>The script as a whole\<close>

text \<open>
  C7. The index is handed to the search of the documentation browser: the only statement
  after the assignment to \<^verbatim>\<open>searchIndex["ticktock"]\<close> is the call
  \<^verbatim>\<open>initSearch(searchIndex)\<close>. Running the script makes exactly that one call, and its
  argument is the index object as the assignment left it, which is also what
  \<^verbatim>\<open>searchIndex\<close> holds afterwards.
\<close>

theorem script_hands_index_to_search:
  "drop 2 script = [Call ''initSearch'' [Var ''searchIndex'']]
   \<and> (case run page (take 2 script) init_state of
         Inr s \<Rightarrow> vars s ''searchIndex'' = Some (JObj [(''ticktock'', ticktock_literal)])
                  \<and> calls s = []
       | Inl e \<Rightarrow> False)
   \<and> (case run page script init_state of
         Inr s \<Rightarrow> vars s ''searchIndex'' = Some (JObj [(''ticktock'', ticktock_literal)])
                  \<and> calls s = [(''initSearch'', [JObj [(''ticktock'', ticktock_literal)]])]
       | Inl e \<Rightarrow> False)"
  by (simp add: run_script) (simp add: script_def page_def init_state_def)

text \<open>
  C8, as stated, fails: the claim is that the item records carry only flat name strings
  and doc-comment strings. The record at position 4, the method \<^verbatim>\<open>new\<close> of \<^verbatim>\<open>Clock\<close>,
  carries as its sixth component an object that holds a list of input types, and as its
  first component a number.
\<close>

theorem record_carries_signature_object:
  "elems (items ! 4) ! 5 =
     JObj [(''inputs'', JArr [JObj [(''name'', JStr ''duration'')]]),
           (''output'', JObj [(''name'', JStr ''clock'')])]
   \<and> \<not> is_str (elems (items ! 4) ! 5)
   \<and> \<not> is_str (elems (items ! 4) ! 0)"
  by (simp add: items_value items_literal_def)

text \<open>
  C8, amended. The source file holds no componentized system or control flow, only a
  metadata table and a README snippet. Its script is three statements, run once each in
  order: the declaration of \<^verbatim>\<open>searchIndex\<close>, the assignment of the index literal to it
  and the call of \<^verbatim>\<open>initSearch\<close>; the whole effect of running it is the one global
  variable and the one call. It is followed by README text: fourteen lines under the title
  "Frame-clock and timers", with one fenced code block of four lines. Every item record
  carries a numeric kind code, flat name, path and doc-comment strings, a parent index
  (null or a number) and type-signature metadata (null, or an object with a list of input
  type names and an output type name); no component of an item record is a list, and no
  value nested inside an item record, at any depth, is itself an item record, so no item
  record contains a nested item list.
\<close>

theorem fragment_is_flat_data:
  "map stmt_form (statements search_index_js)
     = [(Declaration, ''searchIndex''), (Assignment, ''searchIndex''),
        (Invocation, ''initSearch'')]
   \<and> run page (statements search_index_js) init_state
     = Inr \<lparr>vars = (\<lambda>x. None)(''searchIndex'' \<mapsto> JObj [(''ticktock'', JObj [
                (''doc'', JStr ''Timing module for frame-based applications''),
                (''items'', JArr items), (''paths'', JArr paths)])]),
            calls = [(''initSearch'', [JObj [(''ticktock'', JObj [
                (''doc'', JStr ''Timing module for frame-based applications''),
                (''items'', JArr items), (''paths'', JArr paths)])]])]\<rparr>
   \<and> length (related_doc search_index_js) = 14
   \<and> take 1 (related_doc search_index_js) = [''Frame-clock and timers'']
   \<and> filter is_fence (related_doc search_index_js)
     = [[CHR 0x60, CHR 0x60, CHR 0x60] @ ''rust'', [CHR 0x60, CHR 0x60, CHR 0x60]]
   \<and> code_sample (related_doc search_index_js) = Some (''rust'', sample_lines)
   \<and> length sample_lines = 4
   \<and> list_all is_item items
   \<and> list_all has_flat_type items
   \<and> list_all (\<lambda>r. list_all (\<lambda>v. \<not> is_arr v) (elems r)) items
   \<and> list_all (\<lambda>r. list_all (\<lambda>v. \<not> is_item v) (subvalues r)) items"
proof -
  have forms: "map stmt_form (statements search_index_js)
     = [(Declaration, ''searchIndex''), (Assignment, ''searchIndex''),
        (Invocation, ''initSearch'')]"
    by (simp add: search_index_js_def script_def)
  have effect: "run page (statements search_index_js) init_state
     = Inr \<lparr>vars = (\<lambda>x. None)(''searchIndex'' \<mapsto> JObj [(''ticktock'', JObj [
                (''doc'', JStr ''Timing module for frame-based applications''),
                (''items'', JArr items), (''paths'', JArr paths)])]),
            calls = [(''initSearch'', [JObj [(''ticktock'', JObj [
                (''doc'', JStr ''Timing module for frame-based applications''),
                (''items'', JArr items), (''paths'', JArr paths)])]])]\<rparr>"
    by (simp add: search_index_js_def run_script ticktock_literal_def items_value paths_value)
  have doc: "length (related_doc search_index_js) = 14
     \<and> take 1 (related_doc search_index_js) = [''Frame-clock and timers'']
     \<and> filter is_fence (related_doc search_index_js)
       = [[CHR 0x60, CHR 0x60, CHR 0x60] @ ''rust'', [CHR 0x60, CHR 0x60, CHR 0x60]]"
    by (simp add: search_index_js_def readme_def is_fence_def)
  have sample: "code_sample (related_doc search_index_js) = Some (''rust'', sample_lines)
     \<and> length sample_lines = 4"
    by (simp add: search_index_js_def sample_lines_def code_sample_readme)
  have shape: "list_all is_item items"
    by (simp add: items_value items_literal_def is_item_def)
  have types: "list_all has_flat_type items"
    by (simp add: items_value items_literal_def has_flat_type_def is_signature_def
          is_type_ref_def item_type_def)
  have comps: "list_all (\<lambda>r. list_all (\<lambda>v. \<not> is_arr v) (elems r)) items"
    by (simp add: items_value items_literal_def)
  have nested: "list_all (\<lambda>r. list_all (\<lambda>v. \<not> is_item v) (subvalues r)) items"
    by (simp add: items_value items_literal_def is_item_def)
  from forms effect doc sample shape types comps nested show ?thesis
    by blast
qed

end
